theory Spec2Isabelle
  imports Complex_Main "HOL-Library.List_Lexorder" "HOL-Library.Char_ord"
begin

section \<open>Calendar dates\<close>

text \<open>
  Python's \<open>datetime.date\<close>: a year, a month (1..12) and a day of the month.
  Dates are compared field by field, year first.
\<close>

record date =
  year :: nat
  month :: nat
  day :: nat

definition mk_date :: "nat \<Rightarrow> nat \<Rightarrow> nat \<Rightarrow> date" where
  "mk_date y m d = \<lparr>year = y, month = m, day = d\<rparr>"

definition date_less :: "date \<Rightarrow> date \<Rightarrow> bool" where
  "date_less a b \<longleftrightarrow>
     year a < year b \<or> (year a = year b \<and> (month a < month b \<or> (month a = month b \<and> day a < day b)))"

definition is_leap :: "nat \<Rightarrow> bool" where
  "is_leap y \<longleftrightarrow> (y mod 4 = 0 \<and> y mod 100 \<noteq> 0) \<or> y mod 400 = 0"

definition days_in_month :: "nat \<Rightarrow> nat \<Rightarrow> nat" where
  "days_in_month y m =
     (if m = 2 then (if is_leap y then 29 else 28)
      else if m = 4 \<or> m = 6 \<or> m = 9 \<or> m = 11 then 30 else 31)"

text \<open>\<open>d - timedelta(days=1)\<close>: the calendar day before \<open>d\<close>.\<close>

definition minus_one_day :: "date \<Rightarrow> date" where
  "minus_one_day d =
     (if 1 < day d then mk_date (year d) (month d) (day d - 1)
      else if 1 < month d then mk_date (year d) (month d - 1) (days_in_month (year d) (month d - 1))
      else mk_date (year d - 1) 12 31)"

text \<open>
  \<open>pd.date_range(start, end, freq='MS')\<close> is pandas' generator of month starts: every
  first day of a month that lies in the closed interval from \<open>start\<close> to \<open>end\<close>, in
  increasing order. The first one is \<open>start\<close> itself when that is a first of a month,
  the first of the following month otherwise; the number of them is counted in months.
\<close>

definition month_index :: "date \<Rightarrow> nat" where
  "month_index d = year d * 12 + (month d - 1)"

definition next_month :: "date \<Rightarrow> date" where
  "next_month d = (if month d = 12 then mk_date (year d + 1) 1 1 else mk_date (year d) (month d + 1) 1)"

fun month_starts :: "nat \<Rightarrow> date \<Rightarrow> date list" where
  "month_starts 0 s = []"
| "month_starts (Suc n) s = s # month_starts n (next_month s)"

definition date_range_MS :: "date \<Rightarrow> date \<Rightarrow> date list" where
  "date_range_MS start end =
     (let first = (if day start = 1 then start else next_month start)
      in month_starts (Suc (month_index end) - month_index first) first)"

text \<open>\<open>d.isoformat()\<close> and \<open>strftime("%Y-%m-%d")\<close>: zero-padded \<open>YYYY-MM-DD\<close>.\<close>

definition digit :: "nat \<Rightarrow> char" where
  "digit n = ''0123456789'' ! (n mod 10)"

definition pad2 :: "nat \<Rightarrow> string" where
  "pad2 n = [digit (n div 10), digit n]"

definition pad4 :: "nat \<Rightarrow> string" where
  "pad4 n = [digit (n div 1000), digit (n div 100), digit (n div 10), digit n]"

definition isoformat :: "date \<Rightarrow> string" where
  "isoformat d = pad4 (year d) @ ''-'' @ pad2 (month d) @ ''-'' @ pad2 (day d)"

section \<open>The fetch script: configuration and period partitioning\<close>

definition SLEEP_BETWEEN_REQUESTS :: nat where "SLEEP_BETWEEN_REQUESTS = 4"
definition SLEEP_ON_429 :: nat where "SLEEP_ON_429 = 60"
definition RETRY_ATTEMPTS :: nat where "RETRY_ATTEMPTS = 6"
definition USE_MONTHLY :: bool where "USE_MONTHLY = True"
definition START_DATE :: date where "START_DATE = mk_date 2024 1 1"
definition END_DATE :: date where "END_DATE = mk_date 2024 12 31"
definition DAILY_VARS :: string where
  "DAILY_VARS = ''weather_code,temperature_2m_max,temperature_2m_min,precipitation_sum,wind_speed_10m_max,wind_gusts_10m_max,wind_direction_10m_dominant,shortwave_radiation_sum,uv_index_max''"

text \<open>
  \<open>months_between\<close>: one period per month start of the range. The period ends on the
  day before the next month's first day (December is written out), cut at \<open>end\<close>.
\<close>

definition month_period :: "date \<Rightarrow> date \<Rightarrow> date \<times> date" where
  "month_period end s =
     (let sdate = mk_date (year s) (month s) 1;
          edate = (if month s = 12 then mk_date (year s) 12 31
                   else minus_one_day (mk_date (year s) (month s + 1) 1));
          edate = (if date_less end edate then end else edate)
      in (sdate, edate))"

definition months_between :: "date \<Rightarrow> date \<Rightarrow> (date \<times> date) list" where
  "months_between start end = map (month_period end) (date_range_MS start end)"

section \<open>Text normalisation\<close>

text \<open>
  Python's \<open>str.strip()\<close> and \<open>str.upper()\<close> on the ASCII range: the white space
  characters are tab, line feed, vertical tab, form feed, carriage return, the four
  separators 28..31 and the blank; \<open>upper\<close> maps \<open>a..z\<close> to \<open>A..Z\<close>.
\<close>

definition is_space :: "char \<Rightarrow> bool" where
  "is_space c \<longleftrightarrow> c \<in> set [CHR 0x09, CHR 0x0A, CHR 0x0B, CHR 0x0C, CHR 0x0D,
                           CHR 0x1C, CHR 0x1D, CHR 0x1E, CHR 0x1F, CHR '' '']"

definition strip :: "string \<Rightarrow> string" where
  "strip s = rev (dropWhile is_space (rev (dropWhile is_space s)))"

definition upper_char :: "char \<Rightarrow> char" where
  "upper_char c =
     (case map_of (zip ''abcdefghijklmnopqrstuvwxyz'' ''ABCDEFGHIJKLMNOPQRSTUVWXYZ'') c of
        None \<Rightarrow> c
      | Some u \<Rightarrow> u)"

definition upper :: "string \<Rightarrow> string" where
  "upper s = map upper_char s"

section \<open>The fetch script: files, network and trace\<close>

text \<open>
  The query of one archive request, as the dictionary \<open>params\<close> of the month loop.
\<close>

record params =
  latitude :: real
  longitude :: real
  start_date :: string
  end_date :: string
  daily :: string
  timezone :: string

text \<open>
  A table is a list of named columns. What one pass through the \<open>try\<close> block of the
  retry loop can meet:
  \<^item> \<open>Rate_limited\<close>: \<open>safe_get\<close> raised \<open>RetryError("429")\<close>;
  \<^item> \<open>Request_failed\<close>: any other exception left the block (another HTTP status, a
    timeout, a connection error, a body that does not decode, a series that does not
    fit the frame);
  \<^item> \<open>No_daily\<close>: the body decoded, and \<open>"daily" not in j or "time" not in j["daily"]\<close>;
  \<^item> \<open>Daily t\<close>: the body decoded and \<open>t\<close> is the frame built from \<open>j["daily"]\<close>, the
    \<open>time\<close> column first.
  The network is a function of the number of requests already made in the run and of
  the query.
\<close>

type_synonym table = "(string \<times> string list) list"

datatype response = Rate_limited | Request_failed | No_daily | Daily table

type_synonym net = "nat \<Rightarrow> params \<Rightarrow> response"

text \<open>
  What the script does to the outside world, in the order it does it: a request, a
  sleep (in seconds), the creation of the log with its header, one more row in the
  log, the writing of a station's cache file.
\<close>

datatype event =
    Request params
  | Sleep nat
  | Log_header
  | Log_row "string list"
  | Cache_write string

fun is_Request :: "event \<Rightarrow> bool" where
  "is_Request (Request p) = True"
| "is_Request e = False"

text \<open>
  The world of the script: \<open>resume_log.csv\<close> (\<open>None\<close> while the file does not exist,
  its rows otherwise), the cache directory \<open>weather_outputs\<close> (for each station code
  the monthly frames stacked into its file, \<open>None\<close> while there is no file) and the
  trace of events so far.
\<close>

record world =
  log_file :: "string list list option"
  cache :: "string \<Rightarrow> table list option"
  events :: "event list"

type_synonym registry = "string \<Rightarrow> (real \<times> real) option"

datatype error = FileNotFoundError

definition request_count :: "world \<Rightarrow> nat" where
  "request_count w = length (filter is_Request (events w))"

definition sleep :: "nat \<Rightarrow> world \<Rightarrow> world" where
  "sleep n w = w\<lparr>events := events w @ [Sleep n]\<rparr>"

text \<open>\<open>if not LOG.exists(): ... writer.writerow(["iata","status","notes"])\<close>\<close>

definition prepare_log :: "world \<Rightarrow> world" where
  "prepare_log w =
     (case log_file w of
        None \<Rightarrow> w\<lparr>log_file := Some [[''iata'', ''status'', ''notes'']], events := events w @ [Log_header]\<rparr>
      | Some rows \<Rightarrow> w)"

text \<open>\<open>with open(LOG, "a") as f: csv.writer(f).writerow(row)\<close>; mode \<open>"a"\<close> creates a missing file.\<close>

definition append_log :: "string list \<Rightarrow> world \<Rightarrow> world" where
  "append_log row w =
     w\<lparr>log_file := Some ((case log_file w of None \<Rightarrow> [] | Some rows \<Rightarrow> rows) @ [row]),
       events := events w @ [Log_row row]\<rparr>"

text \<open>\<open>df_all = pd.concat(parts); df_all.to_csv(outfn)\<close>\<close>

definition write_cache :: "string \<Rightarrow> table list \<Rightarrow> world \<Rightarrow> world" where
  "write_cache iata parts w =
     w\<lparr>cache := (cache w)(iata := Some parts), events := events w @ [Cache_write iata]\<rparr>"

text \<open>\<open>safe_get\<close>: one request; the trace grows by it, nothing else changes.\<close>

definition safe_get :: "net \<Rightarrow> params \<Rightarrow> world \<Rightarrow> response \<times> world" where
  "safe_get nt p w = (nt (request_count w) p, w\<lparr>events := events w @ [Request p]\<rparr>)"

section \<open>The fetch script: retry loop, month loop, station loop\<close>

definition nrows :: "table \<Rightarrow> nat" where
  "nrows t = (case t of [] \<Rightarrow> 0 | (c, xs) # rest \<Rightarrow> length xs)"

text \<open>\<open>dfw[c] = v\<close>: a column of that name is replaced, a new one goes last.\<close>

definition set_column :: "string \<Rightarrow> string list \<Rightarrow> table \<Rightarrow> table" where
  "set_column c v t =
     (if c \<in> fst ` set t then map (\<lambda>(k, x). if k = c then (k, v) else (k, x)) t else t @ [(c, v)])"

text \<open>
  The loop \<open>for attempt in range(1, RETRY_ATTEMPTS+1)\<close> with its \<open>else\<close> branch. The
  list holds the attempt numbers still to come; \<open>Exhausted\<close> is the \<open>else\<close> branch,
  reached when the loop ends without \<open>break\<close>.
\<close>

datatype attempt_result = Got table | Malformed | Exhausted

definition attempt_range :: "nat list" where
  "attempt_range = [1 ..< RETRY_ATTEMPTS + 1]"

fun attempts_loop :: "net \<Rightarrow> params \<Rightarrow> string \<Rightarrow> nat list \<Rightarrow> nat \<Rightarrow> world \<Rightarrow> attempt_result \<times> world" where
  "attempts_loop nt p iata [] backoff w = (Exhausted, w)"
| "attempts_loop nt p iata (attempt # rest) backoff w =
     (case safe_get nt p w of (r, w1) \<Rightarrow>
        (case r of
           Daily dfw \<Rightarrow>
             (Got (set_column ''iata'' (replicate (nrows dfw) iata) dfw), sleep SLEEP_BETWEEN_REQUESTS w1)
         | No_daily \<Rightarrow> (Malformed, w1)
         | Rate_limited \<Rightarrow>
             attempts_loop nt p iata rest (backoff * 2) (sleep (SLEEP_ON_429 + backoff) w1)
         | Request_failed \<Rightarrow>
             attempts_loop nt p iata rest backoff (sleep (2 + attempt) w1)))"

definition mk_params :: "real \<Rightarrow> real \<Rightarrow> date \<Rightarrow> date \<Rightarrow> params" where
  "mk_params lat lon sdate edate =
     \<lparr>latitude = lat, longitude = lon, start_date = isoformat sdate, end_date = isoformat edate,
      daily = DAILY_VARS, timezone = ''UTC''\<rparr>"

text \<open>
  The loop \<open>for (sdate, edate) in months\<close>, carrying \<open>parts\<close> and \<open>failed\<close>. After the
  \<open>else\<close> branch of the retry loop the month loop is left by \<open>break\<close>; after a body
  without the daily series only the retry loop is left, and the month loop goes on
  with the next month.
\<close>

fun month_loop :: "net \<Rightarrow> real \<Rightarrow> real \<Rightarrow> string \<Rightarrow> (date \<times> date) list \<Rightarrow> table list \<Rightarrow> bool \<Rightarrow> world
    \<Rightarrow> (table list \<times> bool) \<times> world" where
  "month_loop nt lat lon iata [] parts failed w = ((parts, failed), w)"
| "month_loop nt lat lon iata ((sdate, edate) # months) parts failed w =
     (case attempts_loop nt (mk_params lat lon sdate edate) iata attempt_range 1 w of
        (Got dfw, w1) \<Rightarrow> month_loop nt lat lon iata months (parts @ [dfw]) failed w1
      | (Malformed, w1) \<Rightarrow> month_loop nt lat lon iata months parts True w1
      | (Exhausted, w1) \<Rightarrow> ((parts, True), w1))"

text \<open>One pass of the loop \<open>for iata in miss\<close>.\<close>

definition process_station :: "net \<Rightarrow> registry \<Rightarrow> string \<Rightarrow> world \<Rightarrow> world" where
  "process_station nt ap iata w =
     (case ap iata of
        None \<Rightarrow> append_log [iata, ''no_coords'', ''pulado''] w
      | Some (lat, lon) \<Rightarrow>
          if cache w iata \<noteq> None then append_log [iata, ''cached'', ''ok''] w
          else
            (case month_loop nt lat lon iata
                    (if USE_MONTHLY then months_between START_DATE END_DATE else [(START_DATE, END_DATE)])
                    [] False w of
               ((parts, failed), w1) \<Rightarrow>
                 if parts \<noteq> [] \<and> \<not> failed
                 then append_log [iata, ''ok'', ''salvo''] (write_cache iata parts w1)
                 else append_log [iata, ''failed'', ''partial_or_429''] w1))"

fun station_loop :: "net \<Rightarrow> registry \<Rightarrow> string list \<Rightarrow> world \<Rightarrow> world" where
  "station_loop nt ap [] w = w"
| "station_loop nt ap (iata # miss) w = station_loop nt ap miss (process_station nt ap iata w)"

text \<open>
  The script as a whole, from the station registry \<open>ap\<close> (the index of the airports
  table, already upper-cased) and the lines of \<open>missing_airports.txt\<close> (\<open>None\<close> when
  that file does not exist).
\<close>

definition read_missing :: "string list \<Rightarrow> string list" where
  "read_missing lines = map (\<lambda>l. upper (strip l)) (filter (\<lambda>l. strip l \<noteq> []) lines)"

definition run :: "net \<Rightarrow> registry \<Rightarrow> string list \<Rightarrow> world \<Rightarrow> world" where
  "run nt ap lines w = station_loop nt ap (read_missing lines) (prepare_log w)"

definition resume :: "net \<Rightarrow> registry \<Rightarrow> string list option \<Rightarrow> world \<Rightarrow> error + world" where
  "resume nt ap missing w =
     (case missing of
        None \<Rightarrow> Inl FileNotFoundError
      | Some lines \<Rightarrow> Inr (run nt ap lines w))"

subsection \<open>Reading the log and the trace\<close>

definition log_rows :: "world \<Rightarrow> string list list" where
  "log_rows w = (case log_file w of None \<Rightarrow> [] | Some rows \<Rightarrow> rows)"







text \<open>The queries sent, in order.\<close>

fun requested :: "event list \<Rightarrow> params list" where
  "requested [] = []"
| "requested (Request p # evs) = p # requested evs"
| "requested (e # evs) = requested evs"




subsection \<open>Sample worlds\<close>

definition no_files :: world where
  "no_files = \<lparr>log_file = None, cache = (\<lambda>i. None), events = []\<rparr>"

definition always :: "response \<Rightarrow> net" where
  "always r = (\<lambda>n p. r)"

definition first_then :: "response \<Rightarrow> response \<Rightarrow> net" where
  "first_then r r' = (\<lambda>n p. if n = 0 then r else r')"

definition registry_of :: "(string \<times> real \<times> real) list \<Rightarrow> registry" where
  "registry_of xs = map_of xs"

definition one_day :: table where
  "one_day = [(''time'', [''2024-01-01'']), (''temperature_2m_max'', [''5.0''])]"

definition stale_file :: "string \<Rightarrow> world" where
  "stale_file i = \<lparr>log_file = None, cache = (\<lambda>j. if j = i then Some [one_day] else None), events = []\<rparr>"

section \<open>The join script: tables\<close>

text \<open>
  A pandas cell as the script meets it: a missing value (\<open>NaN\<close>, \<open>NaT\<close>), a text (every
  file is read with \<open>dtype=str\<close>) or a timestamp. A DataFrame is its column labels, in
  order, and its rows, each row giving the cell under a label; what a row gives under
  a label that is not a column of its frame is never looked at.
\<close>

datatype cell = NaN | Str string | Ts date

type_synonym row = "string \<Rightarrow> cell"

record frame =
  columns :: "string list"
  records :: "row list"

definition notna :: "cell \<Rightarrow> bool" where
  "notna c \<longleftrightarrow> c \<noteq> NaN"

text \<open>\<open>.astype(str)\<close>: the missing value becomes the text \<open>nan\<close>.\<close>

fun astype_str :: "cell \<Rightarrow> cell" where
  "astype_str NaN = Str ''nan''"
| "astype_str (Str s) = Str s"
| "astype_str (Ts d) = Str (isoformat d)"

text \<open>\<open>.str.strip()\<close> and \<open>.str.upper()\<close>: what is not a text becomes missing.\<close>

fun str_strip :: "cell \<Rightarrow> cell" where
  "str_strip (Str s) = Str (strip s)"
| "str_strip c = NaN"

fun str_upper :: "cell \<Rightarrow> cell" where
  "str_upper (Str s) = Str (upper s)"
| "str_upper c = NaN"

text \<open>
  \<open>pd.to_datetime(..., errors="coerce")\<close> on one cell. The parser of texts is pandas'
  own and is a parameter here: \<open>parse s = None\<close> when the text \<open>s\<close> does not parse.
  The script uses two of them, one with \<open>dayfirst=True\<close> for the flights and the
  default one for the weather files.
\<close>

fun to_datetime :: "(string \<Rightarrow> date option) \<Rightarrow> cell \<Rightarrow> cell" where
  "to_datetime parse NaN = NaN"
| "to_datetime parse (Ts d) = Ts d"
| "to_datetime parse (Str s) = (case parse s of None \<Rightarrow> NaN | Some d \<Rightarrow> Ts d)"

text \<open>\<open>.dt.strftime("%Y-%m-%d")\<close>: \<open>NaT\<close> gives a missing value.\<close>

fun strftime :: "cell \<Rightarrow> cell" where
  "strftime (Ts d) = Str (isoformat d)"
| "strftime c = NaN"

text \<open>\<open>df[c] = f(row)\<close>: the column is replaced where it is, or added as the last one.\<close>

definition assign :: "string \<Rightarrow> (row \<Rightarrow> cell) \<Rightarrow> frame \<Rightarrow> frame" where
  "assign c f df =
     \<lparr>columns = (if c \<in> set (columns df) then columns df else columns df @ [c]),
      records = map (\<lambda>r. r(c := f r)) (records df)\<rparr>"

text \<open>\<open>df.rename(columns={a: b})\<close>\<close>

definition rename_column :: "string \<Rightarrow> string \<Rightarrow> frame \<Rightarrow> frame" where
  "rename_column a b df =
     \<lparr>columns = map (\<lambda>c. if c = a then b else c) (columns df),
      records = map (\<lambda>r. r(b := r a)) (records df)\<rparr>"

text \<open>The labels of a list in the order of their first appearance.\<close>

definition uniq :: "'a list \<Rightarrow> 'a list" where
  "uniq xs = rev (remdups (rev xs))"

text \<open>
  \<open>pd.concat(frames, ignore_index=True, sort=False)\<close>: the rows one frame after the
  other, under the union of the labels; a row has a missing value under a label its
  own frame did not have.
\<close>

definition restrict :: "string list \<Rightarrow> row \<Rightarrow> row" where
  "restrict cs r = (\<lambda>c. if c \<in> set cs then r c else NaN)"

definition concat_frames :: "frame list \<Rightarrow> frame" where
  "concat_frames fs =
     \<lparr>columns = uniq (concat (map columns fs)),
      records = concat (map (\<lambda>f. map (restrict (columns f)) (records f)) fs)\<rparr>"

text \<open>
  \<open>df.drop_duplicates(subset=ks, keep="first")\<close>: a row is dropped when an earlier row
  has the same cells under the labels \<open>ks\<close>.
\<close>

definition key_of :: "string list \<Rightarrow> row \<Rightarrow> cell list" where
  "key_of ks r = map r ks"

fun drop_seen :: "string list \<Rightarrow> cell list list \<Rightarrow> row list \<Rightarrow> row list" where
  "drop_seen ks seen [] = []"
| "drop_seen ks seen (r # rs) =
     (if key_of ks r \<in> set seen then drop_seen ks seen rs
      else r # drop_seen ks (key_of ks r # seen) rs)"

definition drop_duplicates :: "string list \<Rightarrow> frame \<Rightarrow> frame" where
  "drop_duplicates ks df = \<lparr>columns = columns df, records = drop_seen ks [] (records df)\<rparr>"

text \<open>
  \<open>left.merge(right, left_on=lk, right_on=rk, how="left", suffixes=("", sfx))\<close>. The
  labels of the result are the left labels followed by the right labels, a right label
  that is also a left label taking the suffix; pandas raises \<open>MergeError\<close> when the
  suffix makes two right labels equal (the right labels themselves being distinct, as
  those of a stacked table are). Each left row, in order, is paired with every right
  row of the same key, or once with missing values when there is none. Keys are
  compared cell by cell; two missing values are the same key.
\<close>

datatype join_error = Schema_error | Merge_error

definition rename_right :: "string list \<Rightarrow> string \<Rightarrow> string \<Rightarrow> string" where
  "rename_right lcols sfx c = (if c \<in> set lcols then c @ sfx else c)"

definition merge_row :: "string list \<Rightarrow> string list \<Rightarrow> string \<Rightarrow> row \<Rightarrow> row option \<Rightarrow> row" where
  "merge_row lcols rcols sfx l ro =
     (\<lambda>c. if c \<in> set lcols then l c
          else (case find (\<lambda>c'. rename_right lcols sfx c' = c) rcols of
                  None \<Rightarrow> NaN
                | Some c' \<Rightarrow> (case ro of None \<Rightarrow> NaN | Some r \<Rightarrow> r c')))"

definition matches :: "string list \<Rightarrow> string list \<Rightarrow> frame \<Rightarrow> row \<Rightarrow> row list" where
  "matches lk rk right l = filter (\<lambda>r. key_of rk r = key_of lk l) (records right)"

definition merge_left :: "frame \<Rightarrow> frame \<Rightarrow> string list \<Rightarrow> string list \<Rightarrow> string \<Rightarrow> join_error + frame" where
  "merge_left left right lk rk sfx =
     (if \<not> distinct (map (rename_right (columns left) sfx) (columns right)) then Inl Merge_error
      else Inr
        \<lparr>columns = columns left @ map (rename_right (columns left) sfx) (columns right),
         records = concat (map (\<lambda>l.
            (case matches lk rk right l of
               [] \<Rightarrow> [merge_row (columns left) (columns right) sfx l None]
             | m # ms \<Rightarrow> map (\<lambda>r. merge_row (columns left) (columns right) sfx l (Some r)) (m # ms)))
            (records left))\<rparr>)"

section \<open>The join script: loading\<close>

definition SELECTED :: "string list" where
  "SELECTED = [''BOS'', ''ALB'', ''JFK'', ''PHL'', ''ATL'', ''MIA'', ''ORD'', ''MSP'', ''IAH'', ''MSY'',
               ''DEN'', ''SLC'', ''PHX'', ''LAS'', ''LAX'', ''SFO'', ''SEA'', ''ANC'', ''HNL'', ''SJU'']"

text \<open>
  \<open>normalize_flight_dates_and_origin\<close>, on the table that \<open>read_flights\<close> returns. The
  two \<open>raise KeyError\<close> are the schema error.
\<close>

definition normalize_flight_dates_and_origin :: "(string \<Rightarrow> date option) \<Rightarrow> frame \<Rightarrow> join_error + frame" where
  "normalize_flight_dates_and_origin parse_dayfirst df =
     (if ''fl_date'' \<notin> set (columns df) \<and> ''flight_date'' \<notin> set (columns df) then Inl Schema_error
      else
        let df = (if ''flight_date'' \<notin> set (columns df) then rename_column ''fl_date'' ''flight_date'' df else df);
            df = assign ''flight_date_parsed'' (\<lambda>r. to_datetime parse_dayfirst (r ''flight_date'')) df;
            df = assign ''flight_date_str'' (\<lambda>r. strftime (r ''flight_date_parsed'')) df
        in if ''origin'' \<notin> set (columns df) then Inl Schema_error
           else
             let df = assign ''origin'' (\<lambda>r. str_upper (str_strip (astype_str (r ''origin'')))) df;
                 df = (if ''dep_time'' \<in> set (columns df) \<and> ''dep_time_raw'' \<notin> set (columns df)
                       then rename_column ''dep_time'' ''dep_time_raw'' df else df)
             in Inr df)"

text \<open>
  \<open>pd.read_csv(p, dtype=str, parse_dates=["time"])\<close> on a file that has the column:
  the column becomes timestamps when every text in it parses, and is left as it is
  otherwise. Without the column the call raises and the file is read again as texts.
\<close>

definition parse_dates :: "(string \<Rightarrow> date option) \<Rightarrow> string \<Rightarrow> frame \<Rightarrow> frame" where
  "parse_dates parse c f =
     (if list_all (\<lambda>r. r c = NaN \<or> notna (to_datetime parse (r c))) (records f)
      then assign c (\<lambda>r. to_datetime parse (r c)) f else f)"

definition file_name :: "string \<Rightarrow> string" where
  "file_name iata = ''weather_'' @ iata @ ''.csv''"

text \<open>
  The body of the loop of \<open>read_and_stack_weather\<close> for a station whose file exists, \<open>f\<close>
  being the file read as texts; \<open>None\<close> is the \<open>continue\<close> of a file without a date
  column.
\<close>

definition tag_station :: "string \<Rightarrow> frame \<Rightarrow> frame" where
  "tag_station iata w =
     (let w = (if ''iata'' \<notin> set (columns w) then assign ''iata'' (\<lambda>r. Str iata) w else w);
          w = assign ''iata'' (\<lambda>r. str_upper (str_strip (astype_str (r ''iata'')))) w
      in assign ''source_file'' (\<lambda>r. Str (file_name iata)) w)"

definition load_weather_file :: "(string \<Rightarrow> date option) \<Rightarrow> string \<Rightarrow> frame \<Rightarrow> frame option" where
  "load_weather_file parse iata f =
     (let w = (if ''time'' \<in> set (columns f) then parse_dates parse ''time'' f else f)
      in if ''time'' \<in> set (columns w)
         then Some (tag_station iata (assign ''date_str'' (\<lambda>r. strftime (to_datetime parse (r ''time''))) w))
         else if ''date'' \<in> set (columns w)
         then Some (tag_station iata (assign ''date_str'' (\<lambda>r. strftime (to_datetime parse (r ''date''))) w))
         else None)"

text \<open>
  \<open>read_and_stack_weather\<close>: \<open>weather_dir\<close> gives the file of a station, \<open>None\<close> when
  \<open>weather_<iata>.csv\<close> does not exist. The result is the stacked table and the list
  \<open>found\<close>.
\<close>

fun load_all :: "(string \<Rightarrow> date option) \<Rightarrow> string list \<Rightarrow> (string \<Rightarrow> frame option) \<Rightarrow> (string \<times> frame) list" where
  "load_all parse [] weather_dir = []"
| "load_all parse (iata # rest) weather_dir =
     (case weather_dir iata of
        None \<Rightarrow> load_all parse rest weather_dir
      | Some f \<Rightarrow>
          (case load_weather_file parse iata f of
             None \<Rightarrow> load_all parse rest weather_dir
           | Some w \<Rightarrow> (iata, w) # load_all parse rest weather_dir))"

definition read_and_stack_weather :: "(string \<Rightarrow> date option) \<Rightarrow> string list \<Rightarrow> (string \<Rightarrow> frame option)
    \<Rightarrow> frame \<times> string list" where
  "read_and_stack_weather parse selected_iatas weather_dir =
     (let loaded = load_all parse selected_iatas weather_dir;
          found = map fst loaded
      in if loaded = [] then (\<lparr>columns = [''iata'', ''date_str''], records = []\<rparr>, found)
         else
           let weather_all = concat_frames (map snd loaded);
               weather_all = assign ''date_str'' (\<lambda>r. astype_str (r ''date_str'')) weather_all;
               weather_all = assign ''iata'' (\<lambda>r. str_upper (str_strip (astype_str (r ''iata'')))) weather_all
           in (weather_all, found))"

section \<open>The join script: \<open>main\<close>\<close>

text \<open>\<open>flights[flights["origin"].isin(SELECTED)]\<close>, then the column \<open>orig_iata\<close>.\<close>

definition isin :: "cell \<Rightarrow> string list \<Rightarrow> bool" where
  "isin c xs \<longleftrightarrow> (case c of Str s \<Rightarrow> s \<in> set xs | NaN \<Rightarrow> False | Ts d \<Rightarrow> False)"

definition select_flights :: "frame \<Rightarrow> frame" where
  "select_flights flights =
     assign ''orig_iata'' (\<lambda>r. r ''origin'')
       \<lparr>columns = columns flights, records = filter (\<lambda>r. isin (r ''origin'') SELECTED) (records flights)\<rparr>"

text \<open>The two key columns as texts, and the weather table without repeated keys.\<close>

definition left_keys :: "frame \<Rightarrow> frame" where
  "left_keys flights_sel = assign ''flight_date_str'' (\<lambda>r. astype_str (r ''flight_date_str'')) flights_sel"

definition weather_unique :: "frame \<Rightarrow> frame" where
  "weather_unique weather_all =
     drop_duplicates [''iata'', ''date_str'']
       (assign ''date_str'' (\<lambda>r. astype_str (r ''date_str'')) weather_all)"

definition merge_flights :: "frame \<Rightarrow> frame \<Rightarrow> join_error + frame" where
  "merge_flights flights_sel weather_all =
     merge_left (left_keys flights_sel) (weather_unique weather_all)
       [''origin'', ''flight_date_str''] [''iata'', ''date_str''] ''_weather''"

text \<open>
  \<open>weather_cols\<close> are the labels of the merged table that are not labels of the flight
  table; \<open>has_weather\<close> is \<open>merged[weather_cols].notna().any(axis=1)\<close> on one row.
\<close>

definition weather_cols :: "frame \<Rightarrow> frame \<Rightarrow> string list" where
  "weather_cols merged flights_sel = filter (\<lambda>c. c \<notin> set (columns flights_sel)) (columns merged)"

definition has_weather :: "string list \<Rightarrow> row \<Rightarrow> bool" where
  "has_weather wcols m \<longleftrightarrow> list_ex (\<lambda>c. notna (m c)) wcols"

text \<open>
  What \<open>main\<close> writes: the list of selected stations without a weather file, the merged
  table, and the rows without weather. The last file is not written when no weather
  row was read (the early \<open>return\<close>), nor when \<open>weather_cols\<close> is empty: \<open>has_weather\<close> is
  then unbound where it is used, and the script stops there with a \<open>NameError\<close>. The
  fourth file, the number of flights per origin, is counted from the selected flights
  alone and is left out here.
\<close>

record outputs =
  out_missing_orig :: "string list"
  out_merged :: frame
  out_missing_matches :: "frame option"
  name_error :: bool

definition main :: "(string \<Rightarrow> date option) \<Rightarrow> (string \<Rightarrow> date option) \<Rightarrow> frame \<Rightarrow> (string \<Rightarrow> frame option)
    \<Rightarrow> join_error + outputs" where
  "main parse_dayfirst parse flights0 weather_dir =
     (case normalize_flight_dates_and_origin parse_dayfirst flights0 of
        Inl e \<Rightarrow> Inl e
      | Inr flights \<Rightarrow>
          (case read_and_stack_weather parse SELECTED weather_dir of
             (weather_all, found) \<Rightarrow>
               let flights_sel = select_flights flights;
                   missing_origins = sort (remdups (filter (\<lambda>i. i \<notin> set found) SELECTED))
               in if records weather_all = []
                  then Inr \<lparr>out_missing_orig = missing_origins, out_merged = flights_sel,
                            out_missing_matches = None, name_error = False\<rparr>
                  else
                    (case merge_flights flights_sel weather_all of
                       Inl e \<Rightarrow> Inl e
                     | Inr merged \<Rightarrow>
                         let wcols = weather_cols merged (left_keys flights_sel)
                         in if wcols = []
                            then Inr \<lparr>out_missing_orig = missing_origins, out_merged = merged,
                                      out_missing_matches = None, name_error = True\<rparr>
                            else Inr \<lparr>out_missing_orig = missing_origins, out_merged = merged,
                                      out_missing_matches =
                                        Some \<lparr>columns = columns merged,
                                              records = filter (\<lambda>m. \<not> has_weather wcols m) (records merged)\<rparr>,
                                      name_error = False\<rparr>)))"

section \<open>The join script: reading its rows\<close>


definition normalize_row :: "(string \<Rightarrow> date option) \<Rightarrow> frame \<Rightarrow> row \<Rightarrow> row" where
  "normalize_row p df r =
     (let r1 = (if ''flight_date'' \<notin> set (columns df) then r(''flight_date'' := r ''fl_date'') else r);
          r2 = r1(''flight_date_parsed'' := to_datetime p (r1 ''flight_date''));
          r3 = r2(''flight_date_str'' := strftime (r2 ''flight_date_parsed''));
          r4 = r3(''origin'' := str_upper (str_strip (astype_str (r3 ''origin''))))
      in if ''dep_time'' \<in> set (columns df) \<and> ''dep_time_raw'' \<notin> set (columns df)
         then r4(''dep_time_raw'' := r4 ''dep_time'') else r4)"



subsection \<open>Sample tables\<close>

text \<open>
  Six flights: JFK on 1 February 2024 (written day first, the origin in lower case
  with a blank), ATL on 14 and 15 March, ATL with a date text that does not parse,
  BOS, and XNA, which is not a selected station. Weather files for JFK (two rows for
  the same day) and ATL (14 March with no temperature, and a row without a date);
  none for BOS. The two parsers know the date texts of the sample.
\<close>

definition row_of :: "(string \<times> cell) list \<Rightarrow> row" where
  "row_of kvs = (\<lambda>c. case map_of kvs c of None \<Rightarrow> NaN | Some v \<Rightarrow> v)"

definition sample_dayfirst :: "string \<Rightarrow> date option" where
  "sample_dayfirst = map_of [(''01/02/2024'', mk_date 2024 2 1), (''14/03/2024'', mk_date 2024 3 14),
                             (''15/03/2024'', mk_date 2024 3 15)]"

definition sample_iso :: "string \<Rightarrow> date option" where
  "sample_iso = map_of [(''2024-02-01'', mk_date 2024 2 1), (''2024-03-14'', mk_date 2024 3 14)]"

definition sample_flights :: frame where
  "sample_flights =
     \<lparr>columns = [''fl_date'', ''origin'', ''dest''],
      records =
        [row_of [(''fl_date'', Str ''01/02/2024''), (''origin'', Str '' jfk''), (''dest'', Str ''LAX'')],
         row_of [(''fl_date'', Str ''14/03/2024''), (''origin'', Str ''ATL''), (''dest'', Str ''MIA'')],
         row_of [(''fl_date'', Str ''15/03/2024''), (''origin'', Str ''ATL''), (''dest'', Str ''JFK'')],
         row_of [(''fl_date'', Str ''2024-13-45''), (''origin'', Str ''ATL''), (''dest'', Str ''ORD'')],
         row_of [(''fl_date'', Str ''01/02/2024''), (''origin'', Str ''BOS''), (''dest'', Str ''ATL'')],
         row_of [(''fl_date'', Str ''01/02/2024''), (''origin'', Str ''XNA''), (''dest'', Str ''ATL'')]]\<rparr>"

definition sample_weather_dir :: "string \<Rightarrow> frame option" where
  "sample_weather_dir =
     map_of
       [(''JFK'', \<lparr>columns = [''time'', ''temperature_2m_max''],
                  records = [row_of [(''time'', Str ''2024-02-01''), (''temperature_2m_max'', Str ''5.0'')],
                             row_of [(''time'', Str ''2024-02-01''), (''temperature_2m_max'', Str ''6.0'')]]\<rparr>),
        (''ATL'', \<lparr>columns = [''time'', ''temperature_2m_max''],
                  records = [row_of [(''time'', Str ''2024-03-14''), (''temperature_2m_max'', NaN)],
                             row_of [(''time'', NaN), (''temperature_2m_max'', Str ''7.5'')]]\<rparr>)]"

definition sample_normalized :: frame where
  "sample_normalized = projr (normalize_flight_dates_and_origin sample_dayfirst sample_flights)"

definition sample_weather :: frame where
  "sample_weather = fst (read_and_stack_weather sample_iso SELECTED sample_weather_dir)"

definition sample_out :: outputs where
  "sample_out = projr (main sample_dayfirst sample_iso sample_flights sample_weather_dir)"

definition sample_weather_cols :: "string list" where
  "sample_weather_cols = weather_cols (out_merged sample_out) (left_keys (select_flights sample_normalized))"

section \<open>Period partitioning of the year 2024\<close>

lemma month_starts_unfold:
  "month_starts n s = (if n = 0 then [] else s # month_starts (n - 1) (next_month s))"
  by (cases n) simp_all

lemma date_range_MS_2024:
  "date_range_MS (mk_date 2024 1 1) (mk_date 2024 12 31) =
     map (\<lambda>i. mk_date 2024 i 1) [1, 2, 3, 4, 5, 6, 7, 8, 9, 10, 11, 12]"
  by (simp add: date_range_MS_def mk_date_def month_index_def next_month_def month_starts_unfold)

lemma months_between_2024:
  "months_between START_DATE END_DATE =
     [(mk_date 2024 1 1, mk_date 2024 1 31), (mk_date 2024 2 1, mk_date 2024 2 29),
      (mk_date 2024 3 1, mk_date 2024 3 31), (mk_date 2024 4 1, mk_date 2024 4 30),
      (mk_date 2024 5 1, mk_date 2024 5 31), (mk_date 2024 6 1, mk_date 2024 6 30),
      (mk_date 2024 7 1, mk_date 2024 7 31), (mk_date 2024 8 1, mk_date 2024 8 31),
      (mk_date 2024 9 1, mk_date 2024 9 30), (mk_date 2024 10 1, mk_date 2024 10 31),
      (mk_date 2024 11 1, mk_date 2024 11 30), (mk_date 2024 12 1, mk_date 2024 12 31)]"
  unfolding months_between_def START_DATE_def END_DATE_def date_range_MS_2024
  by (simp add: mk_date_def month_period_def minus_one_day_def date_less_def days_in_month_def
      is_leap_def Let_def)

text \<open>
  Claim C3. \<open>months_between\<close> on 2024-01-01 .. 2024-12-31 returns exactly 12 periods;
  the i-th starts on day 1 of month i of 2024 and ends on that month's last calendar
  day (29 February, 2024 being a leap year), and no period ends after 2024-12-31.
\<close>

theorem months_between_year_2024:
  "length (months_between (mk_date 2024 1 1) (mk_date 2024 12 31)) = 12
   \<and> map fst (months_between (mk_date 2024 1 1) (mk_date 2024 12 31))
       = map (\<lambda>i. mk_date 2024 i 1) [1, 2, 3, 4, 5, 6, 7, 8, 9, 10, 11, 12]
   \<and> map snd (months_between (mk_date 2024 1 1) (mk_date 2024 12 31))
       = map (\<lambda>i. mk_date 2024 i (days_in_month 2024 i)) [1, 2, 3, 4, 5, 6, 7, 8, 9, 10, 11, 12]
   \<and> snd (months_between (mk_date 2024 1 1) (mk_date 2024 12 31) ! 1) = mk_date 2024 2 29
   \<and> list_all (\<lambda>p. \<not> date_less (mk_date 2024 12 31) (snd p))
       (months_between (mk_date 2024 1 1) (mk_date 2024 12 31))"
  using months_between_2024
  by (simp add: START_DATE_def END_DATE_def mk_date_def days_in_month_def is_leap_def date_less_def)

section \<open>The fetch script: what a station leaves behind\<close>

lemma attempt_numbers: "attempt_range = [1, 2, 3, 4, 5, 6]"
  unfolding attempt_range_def RETRY_ATTEMPTS_def by code_simp













lemma log_rows_append_log: "log_rows (append_log row w) = log_rows w @ [row]"
  by (simp add: log_rows_def append_log_def)









lemmas fetch_eval = process_station_def USE_MONTHLY_def months_between_2024 attempt_numbers
  safe_get_def sleep_def append_log_def write_cache_def request_count_def
  SLEEP_ON_429_def SLEEP_BETWEEN_REQUESTS_def always_def first_then_def registry_of_def no_files_def
  stale_file_def log_rows_def


lemmas iso_eval = mk_params_def isoformat_def pad2_def pad4_def digit_def mk_date_def

section \<open>The retry budget\<close>

text \<open>
  Claim C2. A station with coordinates in the registry and no cache file, all of whose
  requests are answered by HTTP 429: the script makes exactly six requests, all for
  the first period (January 2024), sleeping 60 s plus the doubling back-off after
  each; then it appends the \<open>failed\<close> row for the station to the log, and the cache
  directory is as it was.
\<close>

theorem always_rate_limited_six_attempts:
  assumes "ap iata = Some (lat, lon)" and "cache w iata = None" and "\<forall>n q. nt n q = Rate_limited"
  shows "events (process_station nt ap iata w) =
           events w @
           [Request (mk_params lat lon (mk_date 2024 1 1) (mk_date 2024 1 31)), Sleep 61,
            Request (mk_params lat lon (mk_date 2024 1 1) (mk_date 2024 1 31)), Sleep 62,
            Request (mk_params lat lon (mk_date 2024 1 1) (mk_date 2024 1 31)), Sleep 64,
            Request (mk_params lat lon (mk_date 2024 1 1) (mk_date 2024 1 31)), Sleep 68,
            Request (mk_params lat lon (mk_date 2024 1 1) (mk_date 2024 1 31)), Sleep 76,
            Request (mk_params lat lon (mk_date 2024 1 1) (mk_date 2024 1 31)), Sleep 92,
            Log_row [iata, ''failed'', ''partial_or_429'']]
         \<and> request_count (process_station nt ap iata w) = request_count w + 6
         \<and> log_file (process_station nt ap iata w) = Some (log_rows w @ [[iata, ''failed'', ''partial_or_429'']])
         \<and> cache (process_station nt ap iata w) = cache w"
  using assms
  by (simp add: fetch_eval)

theorem always_rate_limited_six_attempts_witness:
  "registry_of [(''ATL'', 33, 84)] ''ATL'' = Some (33, 84)
   \<and> cache no_files ''ATL'' = None
   \<and> (\<forall>n q. always Rate_limited n q = Rate_limited)
   \<and> request_count (process_station (always Rate_limited) (registry_of [(''ATL'', 33, 84)]) ''ATL'' no_files) = 6
   \<and> map start_date (requested (events
        (process_station (always Rate_limited) (registry_of [(''ATL'', 33, 84)]) ''ATL'' no_files)))
       = [''2024-01-01'', ''2024-01-01'', ''2024-01-01'', ''2024-01-01'', ''2024-01-01'', ''2024-01-01'']
   \<and> log_file (process_station (always Rate_limited) (registry_of [(''ATL'', 33, 84)]) ''ATL'' no_files)
       = Some [[''ATL'', ''failed'', ''partial_or_429'']]
   \<and> cache (process_station (always Rate_limited) (registry_of [(''ATL'', 33, 84)]) ''ATL'' no_files) ''ATL'' = None"
proof -
  have h1: "registry_of [(''ATL'', 33, 84)] ''ATL'' = Some (33, 84)" by (simp add: registry_of_def)
  have h2: "cache no_files ''ATL'' = None" by (simp add: no_files_def)
  have h3: "\<forall>n q. always Rate_limited n q = Rate_limited" by (simp add: always_def)
  show ?thesis
    using always_rate_limited_six_attempts[where ap="registry_of [(''ATL'', 33, 84)]" and iata="''ATL''"
            and lat=33 and lon=84 and w=no_files and nt="always Rate_limited"] h1 h2 h3
    by (simp add: iso_eval log_rows_def request_count_def no_files_def)
qed

section \<open>A month without the daily series\<close>

text \<open>
  Claim C4, at a station whose first answer lacks the daily series and whose later
  answers are good: the script asks for all twelve months, January to December, one
  request each, before it writes the \<open>failed\<close> row; no cache file is written. The
  \<open>break\<close> after \<open>failed = True\<close> leaves the retry loop only, and the \<open>break\<close> that
  leaves the month loop sits in the \<open>else\<close> branch, which a \<open>break\<close> skips.
\<close>

theorem malformed_month_keeps_fetching:
  "map start_date (requested (events (process_station (first_then No_daily (Daily one_day))
        (registry_of [(''ATL'', 33, 84)]) ''ATL'' no_files)))
     = [''2024-01-01'', ''2024-02-01'', ''2024-03-01'', ''2024-04-01'', ''2024-05-01'', ''2024-06-01'',
        ''2024-07-01'', ''2024-08-01'', ''2024-09-01'', ''2024-10-01'', ''2024-11-01'', ''2024-12-01'']
   \<and> request_count (process_station (first_then No_daily (Daily one_day))
        (registry_of [(''ATL'', 33, 84)]) ''ATL'' no_files) = 12
   \<and> log_file (process_station (first_then No_daily (Daily one_day))
        (registry_of [(''ATL'', 33, 84)]) ''ATL'' no_files) = Some [[''ATL'', ''failed'', ''partial_or_429'']]
   \<and> cache (process_station (first_then No_daily (Daily one_day))
        (registry_of [(''ATL'', 33, 84)]) ''ATL'' no_files) ''ATL'' = None"
  by (simp add: fetch_eval iso_eval)

section \<open>Running the script again\<close>






section \<open>The audit log\<close>



section \<open>The order of the two skip checks\<close>

text \<open>
  Claim C7 as stated fails: a station with a cache file on disk and no entry in the
  registry is recorded \<open>no_coords\<close>, not \<open>cached\<close>.
\<close>

theorem cache_check_first_counterexample:
  "cache (stale_file ''ZZZ'') ''ZZZ'' \<noteq> None
   \<and> registry_of [(''AAA'', 1, 2)] ''ZZZ'' = None
   \<and> log_file (process_station (always Rate_limited) (registry_of [(''AAA'', 1, 2)]) ''ZZZ'' (stale_file ''ZZZ''))
       = Some [[''ZZZ'', ''no_coords'', ''pulado'']]"
  by (simp add: fetch_eval)

text \<open>
  Claim C7, amended. The registry check precedes the cache-file check: a station
  without a registry entry is recorded \<open>no_coords\<close> and skipped whether or not its
  cache file exists, and \<open>cached\<close> is recorded exactly for the stations that have a
  registry entry and an existing cache file. Neither skip makes a request or
  touches the cache.
\<close>

theorem registry_check_precedes_cache_check:
  "(ap iata = None \<longrightarrow> process_station nt ap iata w = append_log [iata, ''no_coords'', ''pulado''] w)
   \<and> (ap iata \<noteq> None \<and> cache w iata \<noteq> None \<longrightarrow>
        process_station nt ap iata w = append_log [iata, ''cached'', ''ok''] w)
   \<and> (last (log_rows (process_station nt ap iata w)) ! 1 = ''no_coords'' \<longleftrightarrow> ap iata = None)
   \<and> (last (log_rows (process_station nt ap iata w)) ! 1 = ''cached'' \<longleftrightarrow> ap iata \<noteq> None \<and> cache w iata \<noteq> None)"
proof (cases "ap iata")
  case None
  then show ?thesis by (simp add: process_station_def log_rows_append_log)
next
  case (Some c)
  obtain lat lon where c: "c = (lat, lon)" by (cases c)
  show ?thesis
  proof (cases "cache w iata = None")
    case False
    then show ?thesis using Some c by (auto simp: process_station_def log_rows_append_log)
  next
    case True
    obtain parts failed w1 where ml: "month_loop nt lat lon iata
        (if USE_MONTHLY then months_between START_DATE END_DATE else [(START_DATE, END_DATE)]) [] False w
        = ((parts, failed), w1)"
      by (cases "month_loop nt lat lon iata
        (if USE_MONTHLY then months_between START_DATE END_DATE else [(START_DATE, END_DATE)]) [] False w") auto
    show ?thesis using Some c True ml by (simp add: process_station_def log_rows_append_log)
  qed
qed

theorem registry_check_precedes_cache_check_witness:
  "registry_of [(''AAA'', 1, 2)] ''ZZZ'' = None
   \<and> process_station (always Rate_limited) (registry_of [(''AAA'', 1, 2)]) ''ZZZ'' (stale_file ''ZZZ'')
       = append_log [''ZZZ'', ''no_coords'', ''pulado''] (stale_file ''ZZZ'')
   \<and> registry_of [(''AAA'', 1, 2)] ''AAA'' \<noteq> None \<and> cache (stale_file ''AAA'') ''AAA'' \<noteq> None
   \<and> process_station (always Rate_limited) (registry_of [(''AAA'', 1, 2)]) ''AAA'' (stale_file ''AAA'')
       = append_log [''AAA'', ''cached'', ''ok''] (stale_file ''AAA'')
   \<and> last (log_rows (process_station (always Rate_limited) (registry_of [(''AAA'', 1, 2)]) ''AAA'' (stale_file ''AAA''))) ! 1
       = ''cached''"
proof -
  have h1: "registry_of [(''AAA'', 1, 2)] ''ZZZ'' = None" by (simp add: registry_of_def)
  have h2: "registry_of [(''AAA'', 1, 2)] ''AAA'' \<noteq> None \<and> cache (stale_file ''AAA'') ''AAA'' \<noteq> None"
    by (simp add: registry_of_def stale_file_def)
  show ?thesis
    using registry_check_precedes_cache_check[of "registry_of [(''AAA'', 1, 2)]" "''ZZZ''"
            "always Rate_limited" "stale_file ''ZZZ''"]
          registry_check_precedes_cache_check[of "registry_of [(''AAA'', 1, 2)]" "''AAA''"
            "always Rate_limited" "stale_file ''AAA''"]
          h1 h2
    by (simp add: log_rows_append_log)
qed

section \<open>Deduplication and the left merge\<close>

text \<open>
  After \<open>drop_duplicates\<close> the rows of a key are at most one, the first of the table
  with that key; so the left merge makes one row of each left row.
\<close>

lemma filter_key_drop_seen:
  "filter (\<lambda>r. key_of ks r = k) (drop_seen ks seen rs) =
     (if k \<in> set seen then []
      else (case find (\<lambda>r. key_of ks r = k) rs of None \<Rightarrow> [] | Some r \<Rightarrow> [r]))"
proof (induction rs arbitrary: seen)
  case Nil
  show ?case by simp
next
  case (Cons r rs)
  show ?case
  proof (cases "key_of ks r \<in> set seen")
    case True
    then show ?thesis using Cons.IH[of seen] by auto
  next
    case False
    then show ?thesis using Cons.IH[of "key_of ks r # seen"] by auto
  qed
qed

lemma matches_drop_duplicates:
  "matches lk rk (drop_duplicates rk df) l =
     (case find (\<lambda>r. key_of rk r = key_of lk l) (records df) of None \<Rightarrow> [] | Some r \<Rightarrow> [r])"
  by (simp add: matches_def drop_duplicates_def filter_key_drop_seen)

lemma merge_left_records:
  assumes "merge_left left (drop_duplicates rk df) lk rk sfx = Inr merged"
  shows "records merged =
     map (\<lambda>l. merge_row (columns left) (columns df) sfx l (find (\<lambda>r. key_of rk r = key_of lk l) (records df)))
       (records left)"
    and "columns merged = columns left @ map (rename_right (columns left) sfx) (columns df)"
proof -
  let ?R = "drop_duplicates rk df"
  have c: "columns ?R = columns df" by (simp add: drop_duplicates_def)
  have one: "(case matches lk rk ?R l of
               [] \<Rightarrow> [merge_row (columns left) (columns ?R) sfx l None]
             | m # ms \<Rightarrow> map (\<lambda>r. merge_row (columns left) (columns ?R) sfx l (Some r)) (m # ms))
        = [merge_row (columns left) (columns df) sfx l (find (\<lambda>r. key_of rk r = key_of lk l) (records df))]" for l
    by (simp add: matches_drop_duplicates c split: option.splits)
  from assms have m: "merged = \<lparr>columns = columns left @ map (rename_right (columns left) sfx) (columns ?R),
         records = concat (map (\<lambda>l.
            (case matches lk rk ?R l of
               [] \<Rightarrow> [merge_row (columns left) (columns ?R) sfx l None]
             | m # ms \<Rightarrow> map (\<lambda>r. merge_row (columns left) (columns ?R) sfx l (Some r)) (m # ms)))
            (records left))\<rparr>"
    by (auto simp: merge_left_def split: if_splits)
  have cm: "concat (map (\<lambda>l. [f l]) xs) = map f xs" for f :: "row \<Rightarrow> row" and xs
    by (induction xs) simp_all
  show "records merged =
     map (\<lambda>l. merge_row (columns left) (columns df) sfx l (find (\<lambda>r. key_of rk r = key_of lk l) (records df)))
       (records left)"
    unfolding m by (simp add: one cm)
  show "columns merged = columns left @ map (rename_right (columns left) sfx) (columns df)"
    unfolding m by (simp add: c)
qed

section \<open>The flight table after normalisation and selection\<close>

lemma columns_assign: "set (columns (assign c f df)) = insert c (set (columns df))"
  by (auto simp: assign_def)

lemma normalize_records:
  assumes "normalize_flight_dates_and_origin p df = Inr flights"
  shows "records flights = map (normalize_row p df) (records df)"
  using assms
  by (auto simp: normalize_flight_dates_and_origin_def normalize_row_def Let_def assign_def
      rename_column_def split: if_splits)

lemma normalize_columns:
  assumes "normalize_flight_dates_and_origin p df = Inr flights"
  shows "''flight_date_str'' \<in> set (columns flights)" and "''origin'' \<in> set (columns flights)"
  using assms
  by (auto simp: normalize_flight_dates_and_origin_def Let_def assign_def
      rename_column_def split: if_splits)

lemma normalize_row_origin:
  "normalize_row p df r ''origin'' = str_upper (str_strip (astype_str (r ''origin'')))"
  by (simp add: normalize_row_def Let_def)


lemma records_select_flights:
  "records (select_flights flights) =
     map (\<lambda>r. r(''orig_iata'' := r ''origin'')) (filter (\<lambda>r. isin (r ''origin'') SELECTED) (records flights))"
  by (simp add: select_flights_def assign_def)

lemma records_left_keys:
  "records (left_keys fs) = map (\<lambda>r. r(''flight_date_str'' := astype_str (r ''flight_date_str''))) (records fs)"
  by (simp add: left_keys_def assign_def)

lemma columns_left_keys:
  "''flight_date_str'' \<in> set (columns fs) \<Longrightarrow> columns (left_keys fs) = columns fs"
  by (simp add: left_keys_def assign_def)

lemma columns_select_flights: "set (columns (select_flights flights)) = insert ''orig_iata'' (set (columns flights))"
  by (simp add: select_flights_def columns_assign)

lemma astype_str_idem: "astype_str (astype_str c) = astype_str c"
  by (cases c) simp_all

section \<open>The two ways \<open>main\<close> ends well\<close>

lemma main_early:
  assumes "normalize_flight_dates_and_origin pd flights0 = Inr flights"
      and "records (fst (read_and_stack_weather p SELECTED weather_dir)) = []"
  shows "main pd p flights0 weather_dir =
     Inr \<lparr>out_missing_orig = sort (remdups (filter (\<lambda>i. i \<notin> set (snd (read_and_stack_weather p SELECTED weather_dir))) SELECTED)),
          out_merged = select_flights flights, out_missing_matches = None, name_error = False\<rparr>"
  using assms by (cases "read_and_stack_weather p SELECTED weather_dir") (simp add: main_def Let_def)

lemma main_merged:
  assumes "normalize_flight_dates_and_origin pd flights0 = Inr flights"
      and "records (fst (read_and_stack_weather p SELECTED weather_dir)) \<noteq> []"
      and "main pd p flights0 weather_dir = Inr out"
  shows "merge_flights (select_flights flights) (fst (read_and_stack_weather p SELECTED weather_dir)) = Inr (out_merged out)"
    and "out_missing_matches out =
          (if weather_cols (out_merged out) (left_keys (select_flights flights)) = [] then None
           else Some \<lparr>columns = columns (out_merged out),
                      records = filter (\<lambda>m. \<not> has_weather (weather_cols (out_merged out) (left_keys (select_flights flights))) m)
                                  (records (out_merged out))\<rparr>)"
    and "name_error out \<longleftrightarrow> weather_cols (out_merged out) (left_keys (select_flights flights)) = []"
    and "out_missing_orig out = sort (remdups (filter (\<lambda>i. i \<notin> set (snd (read_and_stack_weather p SELECTED weather_dir))) SELECTED))"
  using assms
  by (cases "read_and_stack_weather p SELECTED weather_dir";
      auto simp: main_def Let_def split: sum.splits if_splits)+

lemma merge_flights_records:
  assumes "merge_flights fs wa = Inr merged"
  shows "records merged =
     map (\<lambda>l. merge_row (columns (left_keys fs)) (columns (assign ''date_str'' (\<lambda>r. astype_str (r ''date_str'')) wa)) ''_weather'' l
               (find (\<lambda>r. key_of [''iata'', ''date_str''] r = key_of [''origin'', ''flight_date_str''] l)
                  (records (assign ''date_str'' (\<lambda>r. astype_str (r ''date_str'')) wa))))
       (records (left_keys fs))"
   and "columns merged = columns (left_keys fs) @
          map (rename_right (columns (left_keys fs)) ''_weather'') (columns (assign ''date_str'' (\<lambda>r. astype_str (r ''date_str'')) wa))"
  using assms merge_left_records[of "left_keys fs" "[''iata'', ''date_str'']"
      "assign ''date_str'' (\<lambda>r. astype_str (r ''date_str'')) wa" "[''origin'', ''flight_date_str'']" "''_weather''" merged]
  by (simp_all add: merge_flights_def weather_unique_def)

lemma merge_row_left: "c \<in> set lcols \<Longrightarrow> merge_row lcols rcols sfx l ro c = l c"
  by (simp add: merge_row_def)

lemma length_selected:
  assumes "normalize_flight_dates_and_origin pd flights0 = Inr flights"
  shows "length (records (select_flights flights))
       = length (filter (\<lambda>r. isin (str_upper (str_strip (astype_str (r ''origin'')))) SELECTED) (records flights0))"
proof -
  have "filter (\<lambda>r. isin (r ''origin'') SELECTED) (map (normalize_row pd flights0) (records flights0))
      = map (normalize_row pd flights0)
          (filter (\<lambda>r. isin (str_upper (str_strip (astype_str (r ''origin'')))) SELECTED) (records flights0))"
    by (simp add: filter_map comp_def normalize_row_origin)
  then show ?thesis
    by (simp add: records_select_flights normalize_records[OF assms])
qed

lemma merged_rows_project:
  assumes "''flight_date_str'' \<in> set (columns fs)" and "merge_flights fs wa = Inr merged"
  shows "length (records merged) = length (records fs)"
    and "map (\<lambda>m. map m (filter (\<lambda>c. c \<noteq> ''flight_date_str'') (columns fs))) (records merged)
       = map (\<lambda>r. map r (filter (\<lambda>c. c \<noteq> ''flight_date_str'') (columns fs))) (records fs)"
    and "map (\<lambda>m. m ''flight_date_str'') (records merged) = map (\<lambda>r. astype_str (r ''flight_date_str'')) (records fs)"
proof -
  note r = merge_flights_records(1)[OF assms(2)]
  note c = columns_left_keys[OF assms(1)]
  show "length (records merged) = length (records fs)"
    by (simp add: r records_left_keys)
  show "map (\<lambda>m. map m (filter (\<lambda>c. c \<noteq> ''flight_date_str'') (columns fs))) (records merged)
       = map (\<lambda>r. map r (filter (\<lambda>c. c \<noteq> ''flight_date_str'') (columns fs))) (records fs)"
    by (simp add: r c records_left_keys comp_def merge_row_left)
  show "map (\<lambda>m. m ''flight_date_str'') (records merged) = map (\<lambda>r. astype_str (r ''flight_date_str'')) (records fs)"
    using assms(1) by (simp add: r c records_left_keys comp_def merge_row_left)
qed

lemma matches_weather_unique:
  "matches lk [''iata'', ''date_str''] (weather_unique wa) l =
     (case find (\<lambda>r. key_of [''iata'', ''date_str''] r = key_of lk l)
             (records (assign ''date_str'' (\<lambda>r. astype_str (r ''date_str'')) wa)) of
        None \<Rightarrow> [] | Some r \<Rightarrow> [r])"
  by (simp add: weather_unique_def matches_drop_duplicates)


section \<open>The stacked weather table\<close>















section \<open>The columns the merge adds\<close>









lemma merge_row_unmatched: "c \<notin> set lcols \<Longrightarrow> merge_row lcols rcols sfx l None c = NaN"
  by (simp add: merge_row_def split: option.splits)






section \<open>The merged rows are the selected flights\<close>

lemma main_rows:
  assumes "normalize_flight_dates_and_origin parse_dayfirst flights0 = Inr flights"
      and "main parse_dayfirst parse flights0 weather_dir = Inr out"
  shows "length (records (out_merged out)) = length (records (select_flights flights))"
    and "map (\<lambda>m. map m (filter (\<lambda>c. c \<noteq> ''flight_date_str'') (columns (select_flights flights)))) (records (out_merged out))
           = map (\<lambda>r. map r (filter (\<lambda>c. c \<noteq> ''flight_date_str'') (columns (select_flights flights))))
               (records (select_flights flights))"
    and "map (\<lambda>m. astype_str (m ''flight_date_str'')) (records (out_merged out))
           = map (\<lambda>r. astype_str (r ''flight_date_str'')) (records (select_flights flights))"
proof -
  let ?fs = "select_flights flights"
  let ?wa = "fst (read_and_stack_weather parse SELECTED weather_dir)"
  have fd: "''flight_date_str'' \<in> set (columns ?fs)"
    using normalize_columns(1)[OF assms(1)] by (simp add: columns_select_flights)
  have A: "length (records (out_merged out)) = length (records ?fs)
       \<and> map (\<lambda>m. map m (filter (\<lambda>c. c \<noteq> ''flight_date_str'') (columns ?fs))) (records (out_merged out))
           = map (\<lambda>r. map r (filter (\<lambda>c. c \<noteq> ''flight_date_str'') (columns ?fs))) (records ?fs)
       \<and> map (\<lambda>m. astype_str (m ''flight_date_str'')) (records (out_merged out))
           = map (\<lambda>r. astype_str (r ''flight_date_str'')) (records ?fs)"
  proof (cases "records ?wa = []")
    case True
    from main_early[OF assms(1) True] assms(2) have "out_merged out = ?fs" by auto
    then show ?thesis by simp
  next
    case False
    note m = main_merged(1)[OF assms(1) False assms(2)]
    have "map (\<lambda>m. astype_str (m ''flight_date_str'')) (records (out_merged out))
        = map astype_str (map (\<lambda>m. m ''flight_date_str'') (records (out_merged out)))"
      by (simp add: comp_def)
    also have "\<dots> = map (\<lambda>r. astype_str (r ''flight_date_str'')) (records ?fs)"
      by (simp add: merged_rows_project(3)[OF fd m] comp_def astype_str_idem)
    finally show ?thesis
      using merged_rows_project(1,2)[OF fd m] by simp
  qed
  from A show "length (records (out_merged out)) = length (records (select_flights flights))" by simp
  from A show "map (\<lambda>m. map m (filter (\<lambda>c. c \<noteq> ''flight_date_str'') (columns (select_flights flights)))) (records (out_merged out))
           = map (\<lambda>r. map r (filter (\<lambda>c. c \<noteq> ''flight_date_str'') (columns (select_flights flights))))
               (records (select_flights flights))" by simp
  from A show "map (\<lambda>m. astype_str (m ''flight_date_str'')) (records (out_merged out))
           = map (\<lambda>r. astype_str (r ''flight_date_str'')) (records (select_flights flights))" by simp
qed




section \<open>The join script on the sample tables\<close>

lemmas join_eval = main_def normalize_flight_dates_and_origin_def read_and_stack_weather_def
  load_weather_file_def tag_station_def parse_dates_def concat_frames_def uniq_def restrict_def
  assign_def rename_column_def select_flights_def left_keys_def weather_unique_def merge_flights_def
  merge_left_def merge_row_def matches_def key_of_def drop_duplicates_def rename_right_def
  weather_cols_def has_weather_def isin_def notna_def file_name_def SELECTED_def
  row_of_def sample_dayfirst_def sample_iso_def sample_flights_def sample_weather_dir_def
  sample_normalized_def sample_weather_def sample_out_def sample_weather_cols_def
  strip_def upper_def is_space_def upper_char_def isoformat_def pad2_def pad4_def digit_def mk_date_def
  Let_def

lemma sample_normalized_ok: "normalize_flight_dates_and_origin sample_dayfirst sample_flights = Inr sample_normalized"
  by (simp add: join_eval)

lemma sample_out_ok: "main sample_dayfirst sample_iso sample_flights sample_weather_dir = Inr sample_out"
  by (simp add: join_eval)



lemma sample_weather_rows:
  "map (\<lambda>r. (r ''iata'', r ''date_str'', r ''temperature_2m_max'')) (records sample_weather)
     = [(Str ''JFK'', Str ''2024-02-01'', Str ''5.0''), (Str ''JFK'', Str ''2024-02-01'', Str ''6.0''),
        (Str ''ATL'', Str ''2024-03-14'', NaN), (Str ''ATL'', Str ''nan'', Str ''7.5'')]"
  by (simp add: join_eval)

lemma sample_merged_rows:
  "map (\<lambda>m. (m ''flight_date'', m ''origin'', m ''dest'', m ''flight_date_str'', m ''iata'', m ''date_str'',
              m ''temperature_2m_max'')) (records (out_merged sample_out))
     = [(Str ''01/02/2024'', Str ''JFK'', Str ''LAX'', Str ''2024-02-01'', Str ''JFK'', Str ''2024-02-01'', Str ''5.0''),
        (Str ''14/03/2024'', Str ''ATL'', Str ''MIA'', Str ''2024-03-14'', Str ''ATL'', Str ''2024-03-14'', NaN),
        (Str ''15/03/2024'', Str ''ATL'', Str ''JFK'', Str ''2024-03-15'', NaN, NaN, NaN),
        (Str ''2024-13-45'', Str ''ATL'', Str ''ORD'', Str ''nan'', Str ''ATL'', Str ''nan'', Str ''7.5''),
        (Str ''01/02/2024'', Str ''BOS'', Str ''ATL'', Str ''2024-02-01'', NaN, NaN, NaN)]"
  by (simp add: join_eval)


lemma sample_missing_matches:
  "map_option (\<lambda>f. map (\<lambda>m. (m ''origin'', m ''flight_date_str'')) (records f)) (out_missing_matches sample_out)
     = Some [(Str ''ATL'', Str ''2024-03-15''), (Str ''BOS'', Str ''2024-02-01'')]"
  by (simp add: join_eval)

lemma sample_missing_orig: "''BOS'' \<in> set (out_missing_orig sample_out)"
  by (simp add: join_eval)

section \<open>Join completeness\<close>

text \<open>
  Claim C1. When the flight table has the required columns and \<open>main\<close> ends well, the
  merged table has exactly as many rows as the flight table has rows whose origin,
  trimmed and upper-cased, is a selected station; its rows are the selected flight
  rows in their order, unchanged under every flight column (the date text apart,
  which the merge holds as a text). Whatever the stacked weather table holds, a
  flight row meets at most one row of the deduplicated weather table, and that row
  is the first row of the stacked table with the flight's (station, date) key.
\<close>

theorem merged_has_one_row_per_selected_flight:
  assumes "normalize_flight_dates_and_origin parse_dayfirst flights0 = Inr flights"
      and "main parse_dayfirst parse flights0 weather_dir = Inr out"
  shows "length (records (out_merged out))
           = length (filter (\<lambda>r. isin (str_upper (str_strip (astype_str (r ''origin'')))) SELECTED) (records flights0))
       \<and> map (\<lambda>m. map m (filter (\<lambda>c. c \<noteq> ''flight_date_str'') (columns (select_flights flights)))) (records (out_merged out))
           = map (\<lambda>r. map r (filter (\<lambda>c. c \<noteq> ''flight_date_str'') (columns (select_flights flights))))
               (records (select_flights flights))
       \<and> map (\<lambda>m. astype_str (m ''flight_date_str'')) (records (out_merged out))
           = map (\<lambda>r. astype_str (r ''flight_date_str'')) (records (select_flights flights))
       \<and> length (matches [''origin'', ''flight_date_str''] [''iata'', ''date_str''] (weather_unique wa) l) \<le> 1
       \<and> matches [''origin'', ''flight_date_str''] [''iata'', ''date_str''] (weather_unique wa) l
           = (case find (\<lambda>r. key_of [''iata'', ''date_str''] r = key_of [''origin'', ''flight_date_str''] l)
                     (records (assign ''date_str'' (\<lambda>r. astype_str (r ''date_str'')) wa)) of
                None \<Rightarrow> [] | Some r \<Rightarrow> [r])"
proof -
  note rows = main_rows[OF assms]
  have B: "matches [''origin'', ''flight_date_str''] [''iata'', ''date_str''] (weather_unique wa) l
           = (case find (\<lambda>r. key_of [''iata'', ''date_str''] r = key_of [''origin'', ''flight_date_str''] l)
                     (records (assign ''date_str'' (\<lambda>r. astype_str (r ''date_str'')) wa)) of
                None \<Rightarrow> [] | Some r \<Rightarrow> [r])"
    by (rule matches_weather_unique)
  have C: "length (matches [''origin'', ''flight_date_str''] [''iata'', ''date_str''] (weather_unique wa) l) \<le> 1"
    unfolding B by (simp split: option.splits)
  from rows B C length_selected[OF assms(1)] show ?thesis by simp
qed

theorem merged_has_one_row_per_selected_flight_witness:
  "normalize_flight_dates_and_origin sample_dayfirst sample_flights = Inr sample_normalized
   \<and> main sample_dayfirst sample_iso sample_flights sample_weather_dir = Inr sample_out
   \<and> map (\<lambda>r. (r ''iata'', r ''date_str'', r ''temperature_2m_max'')) (records sample_weather)
       = [(Str ''JFK'', Str ''2024-02-01'', Str ''5.0''), (Str ''JFK'', Str ''2024-02-01'', Str ''6.0''),
          (Str ''ATL'', Str ''2024-03-14'', NaN), (Str ''ATL'', Str ''nan'', Str ''7.5'')]
   \<and> length (filter (\<lambda>r. isin (str_upper (str_strip (astype_str (r ''origin'')))) SELECTED) (records sample_flights)) = 5
   \<and> length (records (out_merged sample_out)) = 5
   \<and> map (\<lambda>m. (m ''origin'', m ''dest'', m ''temperature_2m_max'')) (records (out_merged sample_out))
       = [(Str ''JFK'', Str ''LAX'', Str ''5.0''), (Str ''ATL'', Str ''MIA'', NaN), (Str ''ATL'', Str ''JFK'', NaN),
          (Str ''ATL'', Str ''ORD'', Str ''7.5''), (Str ''BOS'', Str ''ATL'', NaN)]
   \<and> length (matches [''origin'', ''flight_date_str''] [''iata'', ''date_str''] (weather_unique sample_weather)
               (row_of [(''origin'', Str ''JFK''), (''flight_date_str'', Str ''2024-02-01'')])) \<le> 1"
proof -
  have len: "length (records (out_merged sample_out)) = 5"
    using arg_cong[OF sample_merged_rows, of length] by simp
  have rows: "map (\<lambda>m. (m ''origin'', m ''dest'', m ''temperature_2m_max'')) (records (out_merged sample_out))
       = [(Str ''JFK'', Str ''LAX'', Str ''5.0''), (Str ''ATL'', Str ''MIA'', NaN), (Str ''ATL'', Str ''JFK'', NaN),
          (Str ''ATL'', Str ''ORD'', Str ''7.5''), (Str ''BOS'', Str ''ATL'', NaN)]"
    using arg_cong[OF sample_merged_rows, of "map (\<lambda>(a, b, c, d, e, f, g). (b, c, g))"]
    by (simp add: comp_def)
  note T = merged_has_one_row_per_selected_flight[OF sample_normalized_ok sample_out_ok,
            where wa=sample_weather
              and l="row_of [(''origin'', Str ''JFK''), (''flight_date_str'', Str ''2024-02-01'')]"]
  have sel: "length (filter (\<lambda>r. isin (str_upper (str_strip (astype_str (r ''origin'')))) SELECTED)
      (records sample_flights)) = 5"
    using T len by simp
  have one: "length (matches [''origin'', ''flight_date_str''] [''iata'', ''date_str''] (weather_unique sample_weather)
               (row_of [(''origin'', Str ''JFK''), (''flight_date_str'', Str ''2024-02-01'')])) \<le> 1"
    using T by blast
  show ?thesis
    using sample_normalized_ok sample_out_ok sample_weather_rows len rows sel one
    by blast
qed

section \<open>Flights whose date does not parse\<close>




section \<open>The rows without weather\<close>

text \<open>
  Claim C9 as stated fails. BOS is a selected station without a weather file, so it
  is listed in the missing-origins output; the BOS flight of the sample is a row of
  the missing-matches output all the same, next to the ATL flight of 15 March, whose
  station has weather for other days.
\<close>

theorem missing_matches_unrestricted_counterexample:
  "main sample_dayfirst sample_iso sample_flights sample_weather_dir = Inr sample_out
   \<and> sample_weather_dir ''BOS'' = None
   \<and> ''BOS'' \<in> set (out_missing_orig sample_out)
   \<and> map_option (\<lambda>f. map (\<lambda>m. (m ''origin'', m ''flight_date_str'')) (records f)) (out_missing_matches sample_out)
       = Some [(Str ''ATL'', Str ''2024-03-15''), (Str ''BOS'', Str ''2024-02-01'')]"
  using sample_out_ok sample_missing_orig sample_missing_matches
  by (simp add: sample_weather_dir_def)

text \<open>
  Claim C9, amended. The missing-matches output, which is written when at least one
  weather row was read, has the columns of the merged table and contains exactly its
  rows in which no weather-sourced column was populated, whatever their origin: a
  flight whose origin has no weather file at all is such a row, and its origin is
  listed in the missing-origins output besides, which holds the selected stations
  that were not found.
\<close>

theorem missing_matches_rows:
  assumes "normalize_flight_dates_and_origin parse_dayfirst flights0 = Inr flights"
      and "main parse_dayfirst parse flights0 weather_dir = Inr out"
      and "out_missing_matches out = Some mm"
  shows "columns mm = columns (out_merged out)
       \<and> records mm = filter (\<lambda>m. \<not> has_weather (weather_cols (out_merged out) (left_keys (select_flights flights))) m)
                         (records (out_merged out))
       \<and> list_all2 (\<lambda>m l. \<not> list_ex (\<lambda>r. r ''iata'' = l ''origin'')
                                (records (fst (read_and_stack_weather parse SELECTED weather_dir)))
                          \<longrightarrow> \<not> has_weather (weather_cols (out_merged out) (left_keys (select_flights flights))) m)
           (records (out_merged out)) (records (left_keys (select_flights flights)))
       \<and> set (out_missing_orig out) = set SELECTED - set (snd (read_and_stack_weather parse SELECTED weather_dir))
       \<and> records (fst (read_and_stack_weather parse SELECTED weather_dir)) \<noteq> []"
proof -
  let ?wa = "fst (read_and_stack_weather parse SELECTED weather_dir)"
  let ?fs = "left_keys (select_flights flights)"
  let ?wc = "weather_cols (out_merged out) ?fs"
  have ne: "records ?wa \<noteq> []"
  proof
    assume e: "records ?wa = []"
    from main_early[OF assms(1) e] assms(2,3) show False by auto
  qed
  note mm = main_merged[OF assms(1) ne assms(2)]
  have "?wc \<noteq> []"
    using mm(2) assms(3) by (auto split: if_splits)
  then have A: "mm = \<lparr>columns = columns (out_merged out),
                   records = filter (\<lambda>m. \<not> has_weather ?wc m) (records (out_merged out))\<rparr>"
    using mm(2) assms(3) by simp
  have B: "set (out_missing_orig out) = set SELECTED - set (snd (read_and_stack_weather parse SELECTED weather_dir))"
    by (auto simp: mm(4))
  have C: "list_all2 (\<lambda>m l. \<not> list_ex (\<lambda>r. r ''iata'' = l ''origin'') (records ?wa) \<longrightarrow> \<not> has_weather ?wc m)
           (records (out_merged out)) (records ?fs)"
  proof -
    let ?W = "assign ''date_str'' (\<lambda>r. astype_str (r ''date_str'')) ?wa"
    let ?K = "\<lambda>l r. key_of [''iata'', ''date_str''] r = key_of [''origin'', ''flight_date_str''] l"
    have none: "find (?K l) (records ?W) = None" if "\<not> list_ex (\<lambda>r. r ''iata'' = l ''origin'') (records ?wa)" for l
      using that by (auto simp: find_None_iff list_ex_iff assign_def key_of_def)
    have wc: "?wc = filter (\<lambda>c. c \<notin> set (columns ?fs)) (columns (out_merged out))"
      by (simp add: weather_cols_def)
    have un: "\<not> has_weather ?wc (merge_row (columns ?fs) (columns ?W) ''_weather'' l None)" for l
      unfolding wc by (auto simp: has_weather_def list_ex_iff notna_def merge_row_unmatched)
    show ?thesis
      unfolding merge_flights_records(1)[OF mm(1)] list_all2_map1
      by (rule list_all2_refl) (use none un in auto)
  qed
  from A B C ne show ?thesis by simp
qed

theorem missing_matches_rows_witness:
  "normalize_flight_dates_and_origin sample_dayfirst sample_flights = Inr sample_normalized
   \<and> main sample_dayfirst sample_iso sample_flights sample_weather_dir = Inr sample_out
   \<and> out_missing_matches sample_out = Some (the (out_missing_matches sample_out))
   \<and> columns (the (out_missing_matches sample_out)) = columns (out_merged sample_out)
   \<and> records (the (out_missing_matches sample_out))
       = filter (\<lambda>m. \<not> has_weather sample_weather_cols m) (records (out_merged sample_out))
   \<and> map (\<lambda>m. (m ''origin'', m ''flight_date_str'')) (records (the (out_missing_matches sample_out)))
       = [(Str ''ATL'', Str ''2024-03-15''), (Str ''BOS'', Str ''2024-02-01'')]
   \<and> ''BOS'' \<in> set (out_missing_orig sample_out)"
proof -
  have s: "out_missing_matches sample_out = Some (the (out_missing_matches sample_out))"
    using sample_missing_matches by (cases "out_missing_matches sample_out") simp_all
  have r: "map (\<lambda>m. (m ''origin'', m ''flight_date_str'')) (records (the (out_missing_matches sample_out)))
       = [(Str ''ATL'', Str ''2024-03-15''), (Str ''BOS'', Str ''2024-02-01'')]"
    using sample_missing_matches by (cases "out_missing_matches sample_out") simp_all
  note T = missing_matches_rows[OF sample_normalized_ok sample_out_ok s]
  from T have c: "columns (the (out_missing_matches sample_out)) = columns (out_merged sample_out)"
    by blast
  from T have f: "records (the (out_missing_matches sample_out))
       = filter (\<lambda>m. \<not> has_weather sample_weather_cols m) (records (out_merged sample_out))"
    unfolding sample_weather_cols_def by blast
  show ?thesis
    using sample_normalized_ok sample_out_ok s r sample_missing_orig c f
    by blast
qed

section \<open>What counts as having weather\<close>



end
